theory Spec2Isabelle
  imports Main "HOL-Library.Word"
begin

section \<open>Values, errors and handles\<close>

text \<open>
  The embedding follows \<^verbatim>\<open>src/reference_handle.cc\<close> and
  \<^verbatim>\<open>src/shareable_persistent.h\<close>. An isolate holder and a context are
  identified by a number; comparing two \<^verbatim>\<open>shared_ptr<IsolateHolder>\<close> is
  comparing these identities.
\<close>

type_synonym isolate_id = nat
type_synonym context_id = nat

text \<open>
  A \<^verbatim>\<open>v8::Local<v8::Value>\<close>. Functions, plain objects, promises and
  instances of the \<^verbatim>\<open>Dereference\<close> class carry the identity of the heap object;
  two occurrences of the same constructor and number are the same live object.
  Numbers are restricted to integers.
\<close>

datatype js_value =
    JNull
  | JUndefined
  | JNumber int
  | JString string
  | JBoolean bool
  | JFunction nat
  | JObject nat
  | JPromise nat
  | JDereference nat

text \<open>
  \<^verbatim>\<open>ExternalCopy\<close>: the copied representation of a value or of an error
  (\<^verbatim>\<open>ExternalCopyError(ErrorType::Error, message)\<close>).
\<close>

datatype external_copy =
    ExternalCopy js_value
  | ExternalCopyError string

text \<open>
  The exceptions of the source. \<^verbatim>\<open>js_runtime_error\<close> says that an exception is
  pending on the isolate; its argument is the exception scheduled by
  \<^verbatim>\<open>ThrowException(e->CopyInto())\<close> right before the throw, when there is one.
  \<^verbatim>\<open>null_dereference\<close> is not an exception: it marks the dereference of an empty
  handle or of a null pointer, where the behaviour of the C++ program is undefined.
\<close>

datatype error =
    js_generic_error string
  | js_type_error string
  | js_runtime_error "external_copy option"
  | null_dereference

text \<open>
  A \<^verbatim>\<open>RemoteHandle<T>\<close> is empty (\<open>None\<close>, what \<^verbatim>\<open>!handle\<close> tests) or holds a
  live value of its isolate. \<^verbatim>\<open>ivm::Deref(handle)\<close> returns that very value.
\<close>

definition RemoteHandle_Deref :: "'a option \<Rightarrow> error + 'a" where
  "RemoteHandle_Deref h = (case h of None \<Rightarrow> Inl null_dereference | Some v \<Rightarrow> Inr v)"

text \<open>
  \<^verbatim>\<open>Unmaybe\<close> (declared outside the two source files) unwraps a
  \<^verbatim>\<open>v8::Maybe\<close> or \<^verbatim>\<open>v8::MaybeLocal\<close>; on an empty one it throws
  \<^verbatim>\<open>js_runtime_error\<close>, the same at every call site.
\<close>

definition Unmaybe :: "'a option \<Rightarrow> error + 'a" where
  "Unmaybe m = (case m of None \<Rightarrow> Inl (js_runtime_error None) | Some v \<Rightarrow> Inr v)"

datatype TypeOf =
    TypeOf_Null
  | TypeOf_Undefined
  | TypeOf_Number
  | TypeOf_String
  | TypeOf_Boolean
  | TypeOf_Object
  | TypeOf_Function

fun InferTypeOf :: "js_value \<Rightarrow> TypeOf" where
  "InferTypeOf JNull = TypeOf_Null"
| "InferTypeOf JUndefined = TypeOf_Undefined"
| "InferTypeOf (JNumber n) = TypeOf_Number"
| "InferTypeOf (JString s) = TypeOf_String"
| "InferTypeOf (JBoolean b) = TypeOf_Boolean"
| "InferTypeOf (JFunction f) = TypeOf_Function"
| "InferTypeOf v = TypeOf_Object"

text \<open>
  An options object passed by the caller, by its own data properties.
  \<^verbatim>\<open>options->Get(context, name)\<close> yields \<^verbatim>\<open>undefined\<close> for a missing one.
\<close>

type_synonym js_options = "string \<rightharpoonup> js_value"

definition options_Get :: "js_options \<Rightarrow> string \<Rightarrow> js_value" where
  "options_Get options name = (case options name of None \<Rightarrow> JUndefined | Some v \<Rightarrow> v)"

text \<open>
  Modelled from the spec: \<^verbatim>\<open>IsOptionSet\<close> is declared outside the two source
  files; the spec has \<^verbatim>\<open>options.release\<close> a boolean that is set or not.
\<close>

definition IsOptionSet :: "js_options \<Rightarrow> string \<Rightarrow> bool" where
  "IsOptionSet options name = (options_Get options name = JBoolean True)"

section \<open>The Reference and the handle returned by derefInto\<close>

text \<open>
  \<^verbatim>\<open>detail::ReferenceData\<close>, the fields of a \<^verbatim>\<open>ReferenceHandle\<close>. The field
  \<^verbatim>\<open>context\<close> is named \<open>context_handle\<close> here.
\<close>

record ReferenceHandle =
  isolate :: "isolate_id option"
  reference :: "js_value option"
  context_handle :: "context_id option"
  type_of :: TypeOf

text \<open>
  \<^verbatim>\<open>ReferenceData(Local<Value>)\<close>: a Reference captured in the current isolate
  and context.
\<close>

definition ReferenceData :: "isolate_id \<Rightarrow> context_id \<Rightarrow> js_value \<Rightarrow> ReferenceHandle" where
  "ReferenceData current current_context v =
     \<lparr>isolate = Some current, reference = Some v,
      context_handle = Some current_context, type_of = InferTypeOf v\<rparr>"

definition CheckDisposed :: "ReferenceHandle \<Rightarrow> error + unit" where
  "CheckDisposed this =
     (if reference this = None then Inl (js_generic_error ''Reference has been released'')
      else Inr ())"

definition TypeOfGetter :: "ReferenceHandle \<Rightarrow> error + js_value" where
  "TypeOfGetter this =
     (case CheckDisposed this of
        Inl e \<Rightarrow> Inl e
      | Inr u \<Rightarrow>
          Inr (case type_of this of
                 TypeOf_Null \<Rightarrow> JString ''null''
               | TypeOf_Undefined \<Rightarrow> JString ''undefined''
               | TypeOf_Number \<Rightarrow> JString ''number''
               | TypeOf_String \<Rightarrow> JString ''string''
               | TypeOf_Boolean \<Rightarrow> JString ''boolean''
               | TypeOf_Object \<Rightarrow> JString ''object''
               | TypeOf_Function \<Rightarrow> JString ''function''))"

text \<open>
  \<^verbatim>\<open>Release\<close> resets the isolate and the two remote handles; the type tag stays.
\<close>

definition Release :: "ReferenceHandle \<Rightarrow> error + (js_value \<times> ReferenceHandle)" where
  "Release this =
     (case CheckDisposed this of
        Inl e \<Rightarrow> Inl e
      | Inr u \<Rightarrow>
          Inr (JUndefined,
               this\<lparr>isolate := None, reference := None, context_handle := None\<rparr>))"

text \<open>
  The local \<^verbatim>\<open>release\<close> of \<^verbatim>\<open>Deref\<close> and \<^verbatim>\<open>DerefInto\<close>: false, unless
  an options object is there and has \<^verbatim>\<open>release\<close> set.
\<close>

definition release_option :: "js_options option \<Rightarrow> bool" where
  "release_option maybe_options =
     (case maybe_options of
        None \<Rightarrow> False
      | Some options \<Rightarrow> IsOptionSet options ''release'')"

text \<open>
  \<^verbatim>\<open>Deref\<close>, called while \<open>current\<close> is the isolate the caller runs in
  (\<^verbatim>\<open>IsolateEnvironment::GetCurrentHolder()\<close>). The result is the value and the
  Reference as the call leaves it. Every throw happens before the first assignment.
\<close>

definition Deref ::
  "isolate_id \<Rightarrow> js_options option \<Rightarrow> ReferenceHandle \<Rightarrow> error + (js_value \<times> ReferenceHandle)"
where
  "Deref current maybe_options this =
     (case CheckDisposed this of
        Inl e \<Rightarrow> Inl e
      | Inr u \<Rightarrow>
          (if isolate this \<noteq> Some current
           then Inl (js_type_error ''Cannot dereference this from current isolate'')
           else
             (let release = release_option maybe_options
              in (case RemoteHandle_Deref (reference this) of
                    Inl e \<Rightarrow> Inl e
                  | Inr ret \<Rightarrow>
                      (if release
                       then (case Release this of
                               Inl e \<Rightarrow> Inl e
                             | Inr (u', this') \<Rightarrow> Inr (ret, this'))
                       else Inr (ret, this))))))"

text \<open>
  \<^verbatim>\<open>DereferenceHandle\<close>, the object behind a \<^verbatim>\<open>Dereference\<close> instance, holds
  copies of the Reference's isolate and value handle. The instances that exist in the
  caller's heap are the list \<open>handles\<close>; \<open>JDereference a\<close> is the instance at
  position \<open>a\<close>, and \<^verbatim>\<open>ClassHandle::NewInstance\<close> appends one.
\<close>

datatype DereferenceHandle = DereferenceHandle "isolate_id option" "js_value option"

type_synonym handles = "DereferenceHandle list"

definition DerefInto ::
  "js_options option \<Rightarrow> ReferenceHandle \<Rightarrow> handles \<Rightarrow>
     error + (js_value \<times> ReferenceHandle \<times> handles)"
where
  "DerefInto maybe_options this hs =
     (case CheckDisposed this of
        Inl e \<Rightarrow> Inl e
      | Inr u \<Rightarrow>
          let release = release_option maybe_options;
              ret = JDereference (length hs);
              hs' = hs @ [DereferenceHandle (isolate this) (reference this)]
          in if release
             then (case Release this of
                     Inl e \<Rightarrow> Inl e
                   | Inr (u', this') \<Rightarrow> Inr (ret, this', hs'))
             else Inr (ret, this, hs'))"

section \<open>Transferables\<close>

text \<open>
  What crosses from one isolate to another. \<^verbatim>\<open>DereferenceHandleTransferable\<close> is
  defined in the source; \<^verbatim>\<open>ExternalCopy\<close> and the transferable of a Reference
  are produced and consumed by code outside the two source files.
\<close>

datatype transferable =
    DereferenceHandleTransferable "isolate_id option" "js_value option"
  | ExternalCopyTransferable external_copy
  | ReferenceHandleTransferable "isolate_id option" "js_value option" "context_id option" TypeOf

text \<open>
  \<^verbatim>\<open>DereferenceHandle::TransferOut\<close> moves both fields into the transferable; a
  moved-from handle is empty. The result is the transferable and the handle as the
  call leaves it.
\<close>

definition DereferenceHandle_TransferOut ::
  "DereferenceHandle \<Rightarrow> error + (transferable \<times> DereferenceHandle)"
where
  "DereferenceHandle_TransferOut this =
     (case this of
        DereferenceHandle i r \<Rightarrow>
          if r = None
          then Inl (js_generic_error
                 ''The return value of `derefInto()` should only be used once'')
          else Inr (DereferenceHandleTransferable i r, DereferenceHandle None None))"

text \<open>
  \<^verbatim>\<open>DereferenceHandleTransferable::TransferIn\<close>, run while \<open>current\<close> is the
  isolate being entered.
\<close>

definition DereferenceHandleTransferable_TransferIn ::
  "isolate_id \<Rightarrow> isolate_id option \<Rightarrow> js_value option \<Rightarrow> error + js_value"
where
  "DereferenceHandleTransferable_TransferIn current i r =
     (if i = Some current then RemoteHandle_Deref r
      else Inl (js_type_error ''Cannot dereference this into target isolate''))"

section \<open>Transfer options and the collaborators outside the source files\<close>

text \<open>
  Modelled from the spec: \<^verbatim>\<open>Transferable::Options\<close> is declared outside the two
  source files. The spec has the options select copy or reference semantics; the
  source builds them from an options object and, at some call sites, the fallback
  \<^verbatim>\<open>Type::Reference\<close>, and compares them with \<^verbatim>\<open>==\<close>. What an object asks for is
  read by code that is not here (\<open>Options_parse\<close> below).
\<close>

datatype transfer_type = Type_None | Type_Copy | Type_ExternalCopy | Type_Reference

record Transferable_Options =
  requested :: transfer_type
  fallback :: transfer_type

definition Options_default :: Transferable_Options where
  "Options_default = \<lparr>requested = Type_None, fallback = Type_None\<rparr>"

text \<open>
  The functions the source calls and does not define: the transfer-options parser,
  the value codec (\<^verbatim>\<open>ExternalCopy\<close>, and transfer of every value that is not a
  \<^verbatim>\<open>Dereference\<close> instance), the V8 object operations on the heap \<open>'h\<close> of the
  isolate being run, the call of a function under \<^verbatim>\<open>RunWithTimeout\<close>, the compiled
  wrapper that attaches the two reactions to a promise, and the copy that
  \<^verbatim>\<open>RunCatchExternal\<close> hands to its error handler. A V8 operation returns a
  \<^verbatim>\<open>Maybe\<close>, empty when it threw.
\<close>

record 'h collaborators =
  Options_parse :: "js_value \<Rightarrow> error + transfer_type"
  ExternalCopy_CopyIfPrimitive :: "js_value \<Rightarrow> external_copy option"
  ExternalCopy_CopyIfPrimitiveOrError :: "js_value \<Rightarrow> external_copy option"
  ExternalCopy_CopyInto :: "external_copy \<Rightarrow> js_value"
  codec_TransferOut :: "js_value \<Rightarrow> Transferable_Options \<Rightarrow> error + transferable"
  codec_TransferIn :: "isolate_id \<Rightarrow> transferable \<Rightarrow> 'h \<Rightarrow> error + (js_value \<times> 'h)"
  Object_Delete :: "js_value \<Rightarrow> js_value \<Rightarrow> 'h \<Rightarrow> bool option \<times> 'h"
  Object_Set :: "js_value \<Rightarrow> js_value \<Rightarrow> js_value \<Rightarrow> 'h \<Rightarrow> bool option \<times> 'h"
  RunWithTimeout_Call ::
    "32 word \<Rightarrow> js_value \<Rightarrow> js_value \<Rightarrow> js_value list \<Rightarrow> 'h \<Rightarrow> error + (js_value \<times> 'h)"
  callback_fn_Call :: "js_value \<Rightarrow> 'h \<Rightarrow> js_value option \<times> 'h"
  RunCatchExternal_copy :: "error \<Rightarrow> external_copy"

text \<open>
  \<^verbatim>\<open>Transferable::Options{object, fallback}\<close> and the constructor from a
  \<^verbatim>\<open>MaybeLocal<Object>\<close>, which parses the object when there is one.
\<close>

definition Transferable_Options_of ::
  "'h collaborators \<Rightarrow> js_value \<Rightarrow> transfer_type \<Rightarrow> error + Transferable_Options"
where
  "Transferable_Options_of c object fb =
     (case Options_parse c object of
        Inl e \<Rightarrow> Inl e
      | Inr t \<Rightarrow> Inr \<lparr>requested = t, fallback = fb\<rparr>)"

definition Transferable_Options_maybe ::
  "'h collaborators \<Rightarrow> js_value option \<Rightarrow> transfer_type \<Rightarrow> error + Transferable_Options"
where
  "Transferable_Options_maybe c maybe_object fb =
     (case maybe_object of
        None \<Rightarrow> Inr \<lparr>requested = Type_None, fallback = fb\<rparr>
      | Some object \<Rightarrow> Transferable_Options_of c object fb)"

text \<open>
  Modelled from the spec: the static \<^verbatim>\<open>Transferable::TransferOut(value, options)\<close>
  is defined outside the two source files. The spec has every value that can cross
  implement its own transfer-out: a \<^verbatim>\<open>Dereference\<close> instance is transferred out by
  \<^verbatim>\<open>DereferenceHandle::TransferOut\<close>, which leaves the instance changed in the list
  of handles; every other value goes to the codec under the options.
\<close>

definition Transferable_TransferOut ::
  "'h collaborators \<Rightarrow> js_value \<Rightarrow> Transferable_Options \<Rightarrow> handles \<Rightarrow>
     error + (transferable \<times> handles)"
where
  "Transferable_TransferOut c v options hs =
     (case v of
        JDereference a \<Rightarrow>
          (if a < length hs
           then (case DereferenceHandle_TransferOut (hs ! a) of
                   Inl e \<Rightarrow> Inl e
                 | Inr (t, h') \<Rightarrow> Inr (t, hs[a := h']))
           else (case codec_TransferOut c v options of
                   Inl e \<Rightarrow> Inl e
                 | Inr t \<Rightarrow> Inr (t, hs)))
      | _ \<Rightarrow>
          (case codec_TransferOut c v options of
             Inl e \<Rightarrow> Inl e
           | Inr t \<Rightarrow> Inr (t, hs)))"

text \<open>
  The virtual \<^verbatim>\<open>Transferable::TransferIn\<close>, run while \<open>current\<close> is the isolate
  being entered: the override of the source for the transferable of
  \<^verbatim>\<open>derefInto\<close>, the codec for the others.
\<close>

definition Transferable_TransferIn ::
  "'h collaborators \<Rightarrow> isolate_id \<Rightarrow> transferable \<Rightarrow> 'h \<Rightarrow> error + (js_value \<times> 'h)"
where
  "Transferable_TransferIn c current t heap =
     (case t of
        DereferenceHandleTransferable i r \<Rightarrow>
          (case DereferenceHandleTransferable_TransferIn current i r of
             Inl e \<Rightarrow> Inl e
           | Inr v \<Rightarrow> Inr (v, heap))
      | _ \<Rightarrow> codec_TransferIn c current t heap)"

section \<open>The runners of copy, get and set\<close>

text \<open>
  Modelled from the spec: \<^verbatim>\<open>ThreePhaseTask::Run\<close> is defined outside the two source
  files. The spec has phase 1, the construction of the runner, run inline in the
  caller's isolate and raise its errors synchronously to the caller; \<open>phases23\<close>
  stands for what the engine does with a constructed runner.
  The first argument of the call in the source, \<^verbatim>\<open>*isolate\<close>, is evaluated before
  the runner is constructed; on a released Reference the holder is null and the
  reference formed from it is not read by phase 1.
\<close>

definition ThreePhaseTask_Run :: "(error + 'r) \<Rightarrow> ('r \<Rightarrow> error + 'a) \<Rightarrow> error + 'a" where
  "ThreePhaseTask_Run phase1 phases23 =
     (case phase1 of
        Inl e \<Rightarrow> Inl e
      | Inr runner \<Rightarrow> phases23 runner)"

record CopyRunner =
  copy_context :: "context_id option"
  copy_reference :: "js_value option"
  copy :: "transferable option"

definition CopyRunner_ctor ::
  "ReferenceHandle \<Rightarrow> context_id option \<Rightarrow> js_value option \<Rightarrow> error + CopyRunner"
where
  "CopyRunner_ctor that cx r =
     (case CheckDisposed that of
        Inl e \<Rightarrow> Inl e
      | Inr u \<Rightarrow> Inr \<lparr>copy_context = cx, copy_reference = r, copy = None\<rparr>)"

definition ReferenceHandle_Copy ::
  "ReferenceHandle \<Rightarrow> (CopyRunner \<Rightarrow> error + 'a) \<Rightarrow> error + 'a"
where
  "ReferenceHandle_Copy this phases23 =
     ThreePhaseTask_Run (CopyRunner_ctor this (context_handle this) (reference this)) phases23"

text \<open>
  \<^verbatim>\<open>GetRunner\<close>. The member initialisers run before the constructor's body: the
  transfer options are built from \<^verbatim>\<open>maybe_options\<close> first, then the body checks
  the Reference and copies the key.
\<close>

record GetRunner =
  get_key :: "external_copy option"
  get_context :: "context_id option"
  get_reference :: "js_value option"
  get_ret :: "transferable option"
  get_options :: Transferable_Options

definition GetRunner_ctor ::
  "'h collaborators \<Rightarrow> ReferenceHandle \<Rightarrow> js_value \<Rightarrow> js_value option \<Rightarrow> error + GetRunner"
where
  "GetRunner_ctor c that key_handle maybe_options =
     (case Transferable_Options_maybe c maybe_options Type_Reference of
        Inl e \<Rightarrow> Inl e
      | Inr options \<Rightarrow>
          (case CheckDisposed that of
             Inl e \<Rightarrow> Inl e
           | Inr u \<Rightarrow>
               (let key = ExternalCopy_CopyIfPrimitive c key_handle
                in if key = None then Inl (js_type_error ''Invalid `key`'')
                   else Inr \<lparr>get_key = key, get_context = context_handle that,
                             get_reference = reference that, get_ret = None,
                             get_options = options\<rparr>)))"

definition ReferenceHandle_Get ::
  "'h collaborators \<Rightarrow> ReferenceHandle \<Rightarrow> js_value \<Rightarrow> js_value option \<Rightarrow>
     (GetRunner \<Rightarrow> error + 'a) \<Rightarrow> error + 'a"
where
  "ReferenceHandle_Get c this key_handle maybe_options phases23 =
     ThreePhaseTask_Run (GetRunner_ctor c this key_handle maybe_options) phases23"

text \<open>
  \<^verbatim>\<open>SetRunner\<close>. Its members are initialised in the order of their declaration:
  \<^verbatim>\<open>key\<close> (the copy of the key, null when it is not a primitive), then \<^verbatim>\<open>val\<close>
  (the transfer options are parsed and the value is transferred out), then the two
  handles. Only then does the body call \<^verbatim>\<open>CheckDisposed\<close> and test the key.
\<close>

record SetRunner =
  set_key :: "external_copy option"
  set_val :: transferable
  set_context :: "context_id option"
  set_reference :: "js_value option"
  did_set :: bool

definition SetRunner_ctor ::
  "'h collaborators \<Rightarrow> ReferenceHandle \<Rightarrow> js_value \<Rightarrow> js_value \<Rightarrow> js_value option \<Rightarrow>
     handles \<Rightarrow> error + (SetRunner \<times> handles)"
where
  "SetRunner_ctor c that key_handle val_handle maybe_options hs =
     (let key = ExternalCopy_CopyIfPrimitive c key_handle
      in (case Transferable_Options_maybe c maybe_options Type_None of
            Inl e \<Rightarrow> Inl e
          | Inr options \<Rightarrow>
              (case Transferable_TransferOut c val_handle options hs of
                 Inl e \<Rightarrow> Inl e
               | Inr (val, hs') \<Rightarrow>
                   (case CheckDisposed that of
                      Inl e \<Rightarrow> Inl e
                    | Inr u \<Rightarrow>
                        (if key = None then Inl (js_type_error ''Invalid `key`'')
                         else Inr (\<lparr>set_key = key, set_val = val,
                                    set_context = context_handle that,
                                    set_reference = reference that,
                                    did_set = False\<rparr>, hs'))))))"

definition ReferenceHandle_Set ::
  "'h collaborators \<Rightarrow> ReferenceHandle \<Rightarrow> js_value \<Rightarrow> js_value \<Rightarrow> js_value option \<Rightarrow>
     handles \<Rightarrow> (SetRunner \<times> handles \<Rightarrow> error + 'a) \<Rightarrow> error + 'a"
where
  "ReferenceHandle_Set c this key_handle val_handle maybe_options hs phases23 =
     ThreePhaseTask_Run (SetRunner_ctor c this key_handle val_handle maybe_options hs) phases23"

text \<open>
  \<^verbatim>\<open>SetRunner::Phase2\<close>, run in the isolate \<open>current\<close> that owns the object, on
  its heap, and \<^verbatim>\<open>SetRunner::Phase3\<close>.
\<close>

definition SetRunner_Phase2 ::
  "'h collaborators \<Rightarrow> isolate_id \<Rightarrow> SetRunner \<Rightarrow> 'h \<Rightarrow> error + (SetRunner \<times> 'h)"
where
  "SetRunner_Phase2 c current this heap =
     (case RemoteHandle_Deref (set_context this) of
        Inl e \<Rightarrow> Inl e
      | Inr cx \<Rightarrow>
          (case RemoteHandle_Deref (set_key this) of
             Inl e \<Rightarrow> Inl e
           | Inr k \<Rightarrow>
               (let key_inner = ExternalCopy_CopyInto c k
                in (case RemoteHandle_Deref (set_reference this) of
                      Inl e \<Rightarrow> Inl e
                    | Inr object \<Rightarrow>
                        (case Object_Delete c object key_inner heap of
                           (deleted, heap1) \<Rightarrow>
                             (case Unmaybe deleted of
                                Inl e \<Rightarrow> Inl e
                              | Inr d \<Rightarrow>
                                  (case Transferable_TransferIn c current (set_val this) heap1 of
                                     Inl e \<Rightarrow> Inl e
                                   | Inr (val_inner, heap2) \<Rightarrow>
                                       (case Object_Set c object key_inner val_inner heap2 of
                                          (was_set, heap3) \<Rightarrow>
                                            (case Unmaybe was_set of
                                               Inl e \<Rightarrow> Inl e
                                             | Inr b \<Rightarrow>
                                                 Inr (this\<lparr>did_set := b\<rparr>, heap3))))))))))"

definition SetRunner_Phase3 :: "SetRunner \<Rightarrow> js_value" where
  "SetRunner_Phase3 this = JBoolean (did_set this)"

section \<open>The runner of apply\<close>

text \<open>
  The arguments collection, a \<^verbatim>\<open>v8::Array\<close>: its own property names in the
  order \<^verbatim>\<open>GetOwnPropertyNames\<close> lists them, each with the value stored under it.
  A name is an array index (\<open>PIndex\<close>) or not (\<open>PName\<close>);
  \<^verbatim>\<open>ToArrayIndex\<close> returns an empty \<^verbatim>\<open>MaybeLocal\<close> on a name that is not an
  array index. \<^verbatim>\<open>arguments->Get(context, key)\<close> reads the property at an index,
  \<^verbatim>\<open>undefined\<close> when there is none.
\<close>

datatype property_name = PIndex nat | PName string

type_synonym js_array = "(property_name \<times> js_value) list"

definition GetOwnPropertyNames :: "js_array \<Rightarrow> property_name list" where
  "GetOwnPropertyNames arguments = map fst arguments"

fun ToArrayIndex :: "property_name \<Rightarrow> nat option" where
  "ToArrayIndex (PIndex n) = Some n"
| "ToArrayIndex (PName s) = None"

definition array_Get :: "js_array \<Rightarrow> nat \<Rightarrow> js_value" where
  "array_Get arguments key =
     (case map_of arguments (PIndex key) of
        None \<Rightarrow> JUndefined
      | Some v \<Rightarrow> v)"

fun IsObject :: "js_value \<Rightarrow> bool" where
  "IsObject (JFunction f) = True"
| "IsObject (JObject a) = True"
| "IsObject (JPromise a) = True"
| "IsObject (JDereference a) = True"
| "IsObject v = False"

fun IsFunction :: "js_value \<Rightarrow> bool" where
  "IsFunction (JFunction f) = True"
| "IsFunction v = False"

fun IsPromise :: "js_value \<Rightarrow> bool" where
  "IsPromise (JPromise a) = True"
| "IsPromise v = False"

fun IsUint32 :: "js_value \<Rightarrow> bool" where
  "IsUint32 (JNumber n) = (0 \<le> n \<and> n < 2 ^ 32)"
| "IsUint32 v = False"

fun Uint32_Value :: "js_value \<Rightarrow> 32 word" where
  "Uint32_Value (JNumber n) = word_of_int n"
| "Uint32_Value v = 0"

text \<open>
  The fields of \<^verbatim>\<open>ApplyRunner\<close>. \<open>did_finish\<close> is the \<^verbatim>\<open>shared_ptr<bool>\<close>:
  \<open>None\<close> while it is null, \<open>Some b\<close> once \<^verbatim>\<open>Phase2Async\<close> has allocated the
  flag, \<open>b\<close> being what the flag holds. The copy of the pointer given to the
  promise's reactions points at the same flag. \<open>async_wait\<close> is null or points at
  the scheduler's wait object, of which the number of wake-ups is kept.
\<close>

record ApplyRunner =
  argv :: "transferable list"
  apply_context :: "context_id option"
  apply_reference :: "js_value option"
  recv :: "transferable option"
  ret :: "transferable option"
  timeout :: "32 word"
  did_finish :: "bool option"
  return_transfer_options :: Transferable_Options
  async_error :: "external_copy option"
  async_wait :: "nat option"

text \<open>
  The run options read by the constructor: \<^verbatim>\<open>timeout\<close>, the transfer options
  of the arguments and those of the return value.
\<close>

definition read_timeout :: "js_options \<Rightarrow> error + 32 word" where
  "read_timeout options =
     (let timeout_handle = options_Get options ''timeout''
      in if timeout_handle \<noteq> JUndefined
         then (if \<not> IsUint32 timeout_handle
               then Inl (js_type_error ''`timeout` must be integer'')
               else Inr (Uint32_Value timeout_handle))
         else Inr 0)"

definition read_arguments_options ::
  "'h collaborators \<Rightarrow> js_options \<Rightarrow> error + Transferable_Options"
where
  "read_arguments_options c options =
     (let arguments_transfer_handle = options_Get options ''arguments''
      in if arguments_transfer_handle \<noteq> JUndefined
         then (if \<not> IsObject arguments_transfer_handle
               then Inl (js_type_error ''`arguments` must be object'')
               else Transferable_Options_of c arguments_transfer_handle Type_None)
         else Inr Options_default)"

definition read_return_options ::
  "'h collaborators \<Rightarrow> js_options \<Rightarrow> error + Transferable_Options"
where
  "read_return_options c options =
     (let return_transfer_handle = options_Get options ''return''
      in if return_transfer_handle \<noteq> JUndefined
         then (if \<not> IsObject return_transfer_handle
               then Inl (js_type_error ''`return` must be object'')
               else Transferable_Options_of c return_transfer_handle Type_Reference)
         else Inr Options_default)"

definition read_run_options ::
  "'h collaborators \<Rightarrow> js_options option \<Rightarrow>
     error + (32 word \<times> Transferable_Options \<times> Transferable_Options)"
where
  "read_run_options c maybe_options =
     (case maybe_options of
        None \<Rightarrow> Inr (0, Options_default, Options_default)
      | Some options \<Rightarrow>
          (case read_timeout options of
             Inl e \<Rightarrow> Inl e
           | Inr t \<Rightarrow>
               (case read_arguments_options c options of
                  Inl e \<Rightarrow> Inl e
                | Inr arguments_transfer_options \<Rightarrow>
                    (case read_return_options c options of
                       Inl e \<Rightarrow> Inl e
                     | Inr return_options \<Rightarrow>
                         Inr (t, arguments_transfer_options, return_options)))))"

text \<open>
  The loop that externalises the arguments: \<open>keys\<close> are the names from position
  \<open>ii\<close> on. The transferables are pushed in the order of the positions.
\<close>

fun externalize ::
  "'h collaborators \<Rightarrow> Transferable_Options \<Rightarrow> js_array \<Rightarrow> property_name list \<Rightarrow> nat \<Rightarrow>
     handles \<Rightarrow> error + (transferable list \<times> handles)"
where
  "externalize c options arguments [] ii hs = Inr ([], hs)"
| "externalize c options arguments (k # keys) ii hs =
     (case Unmaybe (ToArrayIndex k) of
        Inl e \<Rightarrow> Inl e
      | Inr key \<Rightarrow>
          (if key \<noteq> ii then Inl (js_type_error ''Invalid `arguments` array'')
           else (case Transferable_TransferOut c (array_Get arguments key) options hs of
                   Inl e \<Rightarrow> Inl e
                 | Inr (t, hs') \<Rightarrow>
                     (case externalize c options arguments keys (Suc ii) hs' of
                        Inl e \<Rightarrow> Inl e
                      | Inr (ts, hs'') \<Rightarrow> Inr (t # ts, hs'')))))"

text \<open>
  The constructor, phase 1 of apply. The two handles are copied by the member
  initialisers; the body checks the Reference, transfers out the receiver, reads
  the run options and externalises the arguments.
\<close>

definition ApplyRunner_ctor ::
  "'h collaborators \<Rightarrow> ReferenceHandle \<Rightarrow> js_value option \<Rightarrow> js_array option \<Rightarrow>
     js_options option \<Rightarrow> handles \<Rightarrow> error + (ApplyRunner \<times> handles)"
where
  "ApplyRunner_ctor c that recv_handle maybe_arguments maybe_options hs =
     (case CheckDisposed that of
        Inl e \<Rightarrow> Inl e
      | Inr u \<Rightarrow>
          (case (case recv_handle of
                   None \<Rightarrow> Inr (None, hs)
                 | Some recv_local \<Rightarrow>
                     (case Transferable_TransferOut c recv_local Options_default hs of
                        Inl e \<Rightarrow> Inl e
                      | Inr (t, hs1) \<Rightarrow> Inr (Some t, hs1))) of
             Inl e \<Rightarrow> Inl e
           | Inr (rcv, hs1) \<Rightarrow>
               (case read_run_options c maybe_options of
                  Inl e \<Rightarrow> Inl e
                | Inr (t, arguments_transfer_options, return_options) \<Rightarrow>
                    (case (case maybe_arguments of
                             None \<Rightarrow> Inr ([], hs1)
                           | Some arguments \<Rightarrow>
                               externalize c arguments_transfer_options arguments
                                 (GetOwnPropertyNames arguments) 0 hs1) of
                       Inl e \<Rightarrow> Inl e
                     | Inr (ts, hs2) \<Rightarrow>
                         Inr (\<lparr>argv = ts, apply_context = context_handle that,
                               apply_reference = reference that, recv = rcv, ret = None,
                               timeout = t, did_finish = None,
                               return_transfer_options = return_options,
                               async_error = None, async_wait = None\<rparr>, hs2)))))"

definition ReferenceHandle_Apply ::
  "'h collaborators \<Rightarrow> ReferenceHandle \<Rightarrow> js_value option \<Rightarrow> js_array option \<Rightarrow>
     js_options option \<Rightarrow> handles \<Rightarrow> (ApplyRunner \<times> handles \<Rightarrow> error + 'a) \<Rightarrow> error + 'a"
where
  "ReferenceHandle_Apply c this recv_handle maybe_arguments maybe_options hs phases23 =
     ThreePhaseTask_Run
       (ApplyRunner_ctor c this recv_handle maybe_arguments maybe_options hs) phases23"

text \<open>
  \<^verbatim>\<open>TransferArguments\<close>: the transferables of the arguments are transferred
  in, in order, in the isolate \<open>current\<close> being run.
\<close>

fun TransferArguments ::
  "'h collaborators \<Rightarrow> isolate_id \<Rightarrow> transferable list \<Rightarrow> 'h \<Rightarrow> error + (js_value list \<times> 'h)"
where
  "TransferArguments c current [] heap = Inr ([], heap)"
| "TransferArguments c current (t # ts) heap =
     (case Transferable_TransferIn c current t heap of
        Inl e \<Rightarrow> Inl e
      | Inr (v, heap1) \<Rightarrow>
          (case TransferArguments c current ts heap1 of
             Inl e \<Rightarrow> Inl e
           | Inr (vs, heap2) \<Rightarrow> Inr (v # vs, heap2)))"

text \<open>
  \<^verbatim>\<open>Phase2Async\<close>, phase 2 of \<^verbatim>\<open>applySyncPromise\<close>, run in the isolate
  \<open>current\<close> that owns the function. The boolean of the result says whether the
  task now waits on a promise. In that case the flag is allocated holding
  \<^verbatim>\<open>false\<close>, the wait object is recorded and the wrapper attaches the two
  reactions to the promise.
\<close>

definition ApplyRunner_Phase2Async ::
  "'h collaborators \<Rightarrow> isolate_id \<Rightarrow> ApplyRunner \<Rightarrow> 'h \<Rightarrow> handles \<Rightarrow>
     error + (bool \<times> ApplyRunner \<times> 'h \<times> handles)"
where
  "ApplyRunner_Phase2Async c current this heap hs =
     (if \<not> (return_transfer_options this = Options_default)
      then Inl (js_type_error ''`return` options are not available for `applySyncPromise`'')
      else
        (case RemoteHandle_Deref (apply_context this) of
           Inl e \<Rightarrow> Inl e
         | Inr cx \<Rightarrow>
             (case RemoteHandle_Deref (apply_reference this) of
                Inl e \<Rightarrow> Inl e
              | Inr fn \<Rightarrow>
                  (if \<not> IsFunction fn then Inl (js_type_error ''Reference is not a function'')
                   else
                     (case RemoteHandle_Deref (recv this) of
                        Inl e \<Rightarrow> Inl e
                      | Inr rcv \<Rightarrow>
                          (case Transferable_TransferIn c current rcv heap of
                             Inl e \<Rightarrow> Inl e
                           | Inr (recv_inner, heap1) \<Rightarrow>
                               (case TransferArguments c current (argv this) heap1 of
                                  Inl e \<Rightarrow> Inl e
                                | Inr (argv_inner, heap2) \<Rightarrow>
                                    (case RunWithTimeout_Call c (timeout this) fn recv_inner
                                            argv_inner heap2 of
                                       Inl e \<Rightarrow> Inl e
                                     | Inr (v, heap3) \<Rightarrow>
                                         (if IsPromise v
                                          then
                                            (case callback_fn_Call c v heap3 of
                                               (called, heap4) \<Rightarrow>
                                                 (case Unmaybe called of
                                                    Inl e \<Rightarrow> Inl e
                                                  | Inr u \<Rightarrow>
                                                      Inr (True,
                                                           this\<lparr>did_finish := Some False,
                                                                async_wait := Some 0\<rparr>,
                                                           heap4, hs)))
                                          else
                                            (case Transferable_TransferOut c v
                                                    (return_transfer_options this) hs of
                                               Inl e \<Rightarrow> Inl e
                                             | Inr (t, hs1) \<Rightarrow>
                                                 Inr (False, this\<lparr>ret := Some t\<rparr>,
                                                      heap3, hs1)))))))))))"

text \<open>
  \<^verbatim>\<open>Phase3\<close>, run back in the caller's isolate \<open>current\<close>. The runner is
  returned besides the outcome, since the first branch writes the flag before it
  throws.
\<close>

definition ApplyRunner_Phase3 ::
  "'h collaborators \<Rightarrow> isolate_id \<Rightarrow> ApplyRunner \<Rightarrow> 'h \<Rightarrow>
     (error + (js_value \<times> 'h)) \<times> ApplyRunner"
where
  "ApplyRunner_Phase3 c current this heap =
     (if did_finish this = Some False
      then (Inl (js_generic_error ''Script execution timed out.''),
            this\<lparr>did_finish := Some True\<rparr>)
      else
        (case async_error this of
           Some e \<Rightarrow> (Inl (js_runtime_error (Some e)), this)
         | None \<Rightarrow>
             (case RemoteHandle_Deref (ret this) of
                Inl e \<Rightarrow> (Inl e, this)
              | Inr t \<Rightarrow> (Transferable_TransferIn c current t heap, this))))"

text \<open>
  \<^verbatim>\<open>AsyncCallback\<close>, what a reaction of the promise runs. The wrapper calls it
  with three arguments when the promise resolved (\<open>Resolved v\<close>, the value being
  \<^verbatim>\<open>info[2]\<close>) and with four when it rejected (\<open>Rejected err\<close>, the reason being
  \<^verbatim>\<open>info[3]\<close>). It reads the flag through its own pointer first, and touches the
  runner only when the flag is clear.
\<close>

datatype settlement = Resolved js_value | Rejected js_value

definition ApplyRunner_AsyncCallback ::
  "'h collaborators \<Rightarrow> settlement \<Rightarrow> ApplyRunner \<Rightarrow> handles \<Rightarrow> ApplyRunner \<times> handles"
where
  "ApplyRunner_AsyncCallback c info self hs =
     (if did_finish self = Some True then (self, hs)
      else
        (case (case info of
                 Resolved v \<Rightarrow>
                   (case Transferable_TransferOut c v Options_default hs of
                      Inr (t, hs1) \<Rightarrow> (self\<lparr>ret := Some t\<rparr>, hs1)
                    | Inl e \<Rightarrow> (self\<lparr>async_error := Some (RunCatchExternal_copy c e)\<rparr>, hs))
               | Rejected err \<Rightarrow>
                   (case ExternalCopy_CopyIfPrimitiveOrError c err of
                      Some e \<Rightarrow> (self\<lparr>async_error := Some e\<rparr>, hs)
                    | None \<Rightarrow>
                        (self\<lparr>async_error := Some (ExternalCopyError
                           ''An object was thrown from supplied code within isolated-vm, but that object was not an instance of `Error`.'')\<rparr>,
                         hs))) of
           (self1, hs1) \<Rightarrow>
             (self1\<lparr>did_finish := Some True, async_wait := map_option Suc (async_wait self1)\<rparr>,
              hs1)))"

section \<open>The shareable persistent\<close>

text \<open>
  What the destructor of \<^verbatim>\<open>ShareablePersistent\<close> does to the persistent it owns,
  step by step: the call of the disposer \<^verbatim>\<open>D\<close> with the isolate pointer it is
  given (\<open>None\<close> for \<^verbatim>\<open>nullptr\<close>), \<^verbatim>\<open>handle->Reset()\<close>, and
  \<^verbatim>\<open>delete handle\<close>. A task is the steps its closure runs.
\<close>

type_synonym persistent_id = nat

datatype disposal_step =
    Disposer_call persistent_id "isolate_id option"
  | Persistent_Reset persistent_id
  | Persistent_delete persistent_id

record ShareableIsolate =
  isolate_identity :: isolate_id
  alive :: bool
  handle_tasks :: "disposal_step list list"

text \<open>
  Modelled from the spec: \<^verbatim>\<open>ShareableIsolate::ScheduleHandleTask\<close> is defined
  outside the two source files. The spec has it schedule a disposal task on the
  environment's queue, and fail if the environment is already torn down.
\<close>

definition ScheduleHandleTask ::
  "ShareableIsolate \<Rightarrow> disposal_step list \<Rightarrow> bool \<times> ShareableIsolate"
where
  "ScheduleHandleTask shared task =
     (if alive shared then (True, shared\<lparr>handle_tasks := handle_tasks shared @ [task]\<rparr>)
      else (False, shared))"

text \<open>
  The destructor: \<open>D\<close> says whether the template argument \<^verbatim>\<open>D\<close> is a disposer
  (not \<^verbatim>\<open>nullptr\<close>), \<open>handle\<close> is the persistent released from the
  \<^verbatim>\<open>unique_ptr\<close>. The result is the steps run at once on the releasing thread,
  and the isolate with its queue.
\<close>

definition ShareablePersistent_destructor ::
  "bool \<Rightarrow> persistent_id \<Rightarrow> ShareableIsolate \<Rightarrow> disposal_step list \<times> ShareableIsolate"
where
  "ShareablePersistent_destructor D handle shared =
     (case ScheduleHandleTask shared
             ((if D then [Disposer_call handle (Some (isolate_identity shared))] else [])
              @ [Persistent_Reset handle, Persistent_delete handle]) of
        (scheduled, shared') \<Rightarrow>
          (if \<not> scheduled
           then ((if D then [Disposer_call handle None] else []) @ [Persistent_delete handle],
                 shared')
           else ([], shared')))"

section \<open>An instance of the collaborators\<close>

text \<open>
  A small instance on which the model can be run: the heap of an isolate is the
  list of the properties stored, as triples of object, key and value, newest first;
  deleting removes the triples of the object and key, setting adds one; the codec
  copies the values that are not objects and refuses the others; every call returns
  promise number 0.
\<close>

type_synonym example_heap = "(js_value \<times> js_value \<times> js_value) list"

definition example_collaborators :: "example_heap collaborators" where
  "example_collaborators =
     \<lparr>Options_parse = (\<lambda>object. Inr Type_None),
      ExternalCopy_CopyIfPrimitive =
        (\<lambda>v. if IsObject v then None else Some (ExternalCopy v)),
      ExternalCopy_CopyIfPrimitiveOrError =
        (\<lambda>v. if IsObject v then None else Some (ExternalCopy v)),
      ExternalCopy_CopyInto =
        (\<lambda>e. case e of ExternalCopy v \<Rightarrow> v | ExternalCopyError m \<Rightarrow> JString m),
      codec_TransferOut =
        (\<lambda>v options.
           if IsObject v then Inl (js_type_error ''A non-transferable value was passed'')
           else Inr (ExternalCopyTransferable (ExternalCopy v))),
      codec_TransferIn =
        (\<lambda>current t heap.
           case t of
             ExternalCopyTransferable (ExternalCopy v) \<Rightarrow> Inr (v, heap)
           | _ \<Rightarrow> Inl (js_runtime_error None)),
      Object_Delete =
        (\<lambda>object key heap.
           (Some True, filter (\<lambda>(ob, k, v). \<not> (ob = object \<and> k = key)) heap)),
      Object_Set = (\<lambda>object key v heap. (Some True, (object, key, v) # heap)),
      RunWithTimeout_Call = (\<lambda>t fn rcv args heap. Inr (JPromise 0, heap)),
      callback_fn_Call = (\<lambda>v heap. (Some JUndefined, heap)),
      RunCatchExternal_copy = (\<lambda>e. ExternalCopyError ''transfer failed'')\<rparr>"

section \<open>Transfer of the arguments, as the specification words it\<close>

text \<open>
  The specification has each argument transferred out in phase 1, in index order,
  under the transfer options of the arguments. \<open>TransferOut_in_order\<close> says just
  that of a list of values: each is transferred out in turn, on the handles the
  previous transfer left, and the first failure ends the run. It is the yardstick the
  loop \<open>externalize\<close> of the source is compared with.
\<close>

fun TransferOut_in_order ::
  "'h collaborators \<Rightarrow> Transferable_Options \<Rightarrow> js_value list \<Rightarrow> handles \<Rightarrow>
     error + (transferable list \<times> handles)"
where
  "TransferOut_in_order c options [] hs = Inr ([], hs)"
| "TransferOut_in_order c options (v # vs) hs =
     (case Transferable_TransferOut c v options hs of
        Inl e \<Rightarrow> Inl e
      | Inr (t, hs') \<Rightarrow>
          (case TransferOut_in_order c options vs hs' of
             Inl e \<Rightarrow> Inl e
           | Inr (ts, hs'') \<Rightarrow> Inr (t # ts, hs'')))"

section \<open>Properties\<close>

subsection \<open>Operations on a released Reference\<close>

text \<open>
  After \<^verbatim>\<open>release\<close> the value handle is empty. The operations whose first step
  is \<^verbatim>\<open>CheckDisposed\<close> then fail with the generic error
  \<^verbatim>\<open>Reference has been released\<close>: typeof, deref, derefInto, release, copy and
  apply.
\<close>

lemma disposed_operations:
  assumes "reference r = None"
  shows "TypeOfGetter r = Inl (js_generic_error ''Reference has been released'')"
    and "Deref current maybe_options r = Inl (js_generic_error ''Reference has been released'')"
    and "DerefInto maybe_options r hs = Inl (js_generic_error ''Reference has been released'')"
    and "Release r = Inl (js_generic_error ''Reference has been released'')"
    and "ReferenceHandle_Copy r copy23 = Inl (js_generic_error ''Reference has been released'')"
    and "ReferenceHandle_Apply c r recv_handle maybe_arguments run_options hs apply23 =
           Inl (js_generic_error ''Reference has been released'')"
  using assms
  by (simp_all add: TypeOfGetter_def Deref_def DerefInto_def Release_def CheckDisposed_def
      ReferenceHandle_Copy_def CopyRunner_ctor_def ReferenceHandle_Apply_def
      ApplyRunner_ctor_def ThreePhaseTask_Run_def)

text \<open>
  \<^verbatim>\<open>get\<close> and \<^verbatim>\<open>set\<close> reach \<^verbatim>\<open>CheckDisposed\<close> only after their member
  initialisers: they fail with the same error once the transfer options have been
  built and, for \<^verbatim>\<open>set\<close>, the value has been transferred out.
\<close>

lemma disposed_get_set:
  assumes "reference r = None"
  shows "Transferable_Options_maybe c maybe_options Type_Reference = Inr parsed \<Longrightarrow>
           ReferenceHandle_Get c r key_handle maybe_options get23 =
             Inl (js_generic_error ''Reference has been released'')"
    and "Transferable_Options_maybe c maybe_options Type_None = Inr parsed \<Longrightarrow>
         Transferable_TransferOut c val_handle parsed hs = Inr (t, hs') \<Longrightarrow>
           ReferenceHandle_Set c r key_handle val_handle maybe_options hs set23 =
             Inl (js_generic_error ''Reference has been released'')"
  using assms
  by (simp_all add: ReferenceHandle_Get_def GetRunner_ctor_def ReferenceHandle_Set_def
      SetRunner_ctor_def CheckDisposed_def ThreePhaseTask_Run_def)

text \<open>
  Claim C1: after \<^verbatim>\<open>r.release()\<close> every later public operation on \<open>r\<close> fails with
  the generic error \<^verbatim>\<open>Reference has been released\<close>.

  \<^verbatim>\<open>set\<close> does not: the constructor of \<^verbatim>\<open>SetRunner\<close> transfers the value out
  in a member initialiser, before its body calls \<^verbatim>\<open>CheckDisposed\<close>. Here a
  Reference is released, and \<^verbatim>\<open>set\<close> is called on it with a value whose transfer
  fails, the result of a \<^verbatim>\<open>derefInto()\<close> that was used before. The constructor,
  and with it the call, fails with the error of the transfer, whatever the
  collaborators are and whatever the engine would do with a constructed runner.
\<close>

theorem Set_after_release_transfer_error:
  "DerefInto None (ReferenceData 1 5 (JObject 7)) [] =
     Inr (JDereference 0, ReferenceData 1 5 (JObject 7),
          [DereferenceHandle (Some 1) (Some (JObject 7))])
   \<and> Transferable_TransferOut c (JDereference 0) Options_default
        [DereferenceHandle (Some 1) (Some (JObject 7))] =
       Inr (DereferenceHandleTransferable (Some 1) (Some (JObject 7)),
            [DereferenceHandle None None])
   \<and> Release (ReferenceData 1 5 (JObject 7)) =
       Inr (JUndefined,
            \<lparr>isolate = None, reference = None, context_handle = None, type_of = TypeOf_Object\<rparr>)
   \<and> SetRunner_ctor c
        \<lparr>isolate = None, reference = None, context_handle = None, type_of = TypeOf_Object\<rparr>
        (JString ''x'') (JDereference 0) None [DereferenceHandle None None] =
       Inl (js_generic_error ''The return value of `derefInto()` should only be used once'')
   \<and> ReferenceHandle_Set c
        \<lparr>isolate = None, reference = None, context_handle = None, type_of = TypeOf_Object\<rparr>
        (JString ''x'') (JDereference 0) None [DereferenceHandle None None] phases23 =
       Inl (js_generic_error ''The return value of `derefInto()` should only be used once'')"
  by (simp add: DerefInto_def release_option_def Release_def CheckDisposed_def ReferenceData_def
      ReferenceHandle_Set_def ThreePhaseTask_Run_def SetRunner_ctor_def
      Transferable_Options_maybe_def Transferable_TransferOut_def
      DereferenceHandle_TransferOut_def)

subsection \<open>The completion flag of a promise-awaiting apply\<close>

lemma ctor_fresh_runner:
  assumes "ApplyRunner_ctor c that recv_handle maybe_arguments maybe_options hs = Inr (runner, hs')"
  shows "did_finish runner = None \<and> async_error runner = None"
  using assms
  by (auto simp add: ApplyRunner_ctor_def
      split: if_splits sum.splits prod.splits option.splits)

lemma Phase2Async_promise_allocates_flag:
  assumes "ApplyRunner_Phase2Async c current runner heap hs = Inr (True, s, heap', hs')"
  shows "did_finish s = Some False \<and> async_error s = async_error runner"
  using assms
  by (auto simp add: ApplyRunner_Phase2Async_def Unmaybe_def
      split: if_splits sum.splits prod.splits option.splits)

text \<open>
  Claim C2: when phase 2 of a promise-awaiting apply returned a promise, the completion
  flag is written once, by whichever of the deadline and the settlement of the promise
  comes first.

  Let \<open>s\<close> be the runner as \<^verbatim>\<open>Phase2Async\<close> leaves it when the call returned a
  promise. If phase 3 runs first (the deadline), it raises the generic error
  \<^verbatim>\<open>Script execution timed out.\<close> and sets the flag, and a reaction of the promise
  that runs afterwards returns the runner and the handles as they are. If a reaction
  runs first (the settlement), it sets the flag, and phase 3 then leaves the runner as
  it is and delivers the stored outcome: the transfer-in of the transferred-out value
  of a resolved promise, or a runtime error carrying the copy of the error (the error
  of that transfer-out, the reason of a rejected promise, or the error that stands for
  a reason that is not an error).
\<close>

theorem completion_flag_first_writer_wins:
  assumes "ApplyRunner_ctor c that recv_handle maybe_arguments maybe_options hs_caller =
             Inr (runner, hs_made)"
    and "ApplyRunner_Phase2Async c target runner target_heap hs_made =
             Inr (True, s, target_heap', hs_waiting)"
  shows
    "ApplyRunner_Phase3 c current s heap =
       (Inl (js_generic_error ''Script execution timed out.''), s\<lparr>did_finish := Some True\<rparr>)
     \<and> ApplyRunner_AsyncCallback c info (s\<lparr>did_finish := Some True\<rparr>) hs =
         (s\<lparr>did_finish := Some True\<rparr>, hs)
     \<and> (case ApplyRunner_AsyncCallback c info s hs of
           (settled, hs') \<Rightarrow>
             did_finish settled = Some True
             \<and> snd (ApplyRunner_Phase3 c current settled heap) = settled
             \<and> fst (ApplyRunner_Phase3 c current settled heap) =
                 (case info of
                    Resolved v \<Rightarrow>
                      (case Transferable_TransferOut c v Options_default hs of
                         Inr (t, hs'') \<Rightarrow> Transferable_TransferIn c current t heap
                       | Inl e \<Rightarrow> Inl (js_runtime_error (Some (RunCatchExternal_copy c e))))
                  | Rejected err \<Rightarrow>
                      Inl (js_runtime_error (Some
                        (case ExternalCopy_CopyIfPrimitiveOrError c err of
                           Some e \<Rightarrow> e
                         | None \<Rightarrow> ExternalCopyError
                             ''An object was thrown from supplied code within isolated-vm, but that object was not an instance of `Error`.'')))))"
proof -
  from ctor_fresh_runner [OF assms(1)] Phase2Async_promise_allocates_flag [OF assms(2)]
  have flag: "did_finish s = Some False" and no_error: "async_error s = None"
    by simp_all
  have deadline: "ApplyRunner_Phase3 c current s heap =
      (Inl (js_generic_error ''Script execution timed out.''), s\<lparr>did_finish := Some True\<rparr>)"
    using flag by (simp add: ApplyRunner_Phase3_def)
  have late: "ApplyRunner_AsyncCallback c info (s\<lparr>did_finish := Some True\<rparr>) hs =
      (s\<lparr>did_finish := Some True\<rparr>, hs)"
    by (simp add: ApplyRunner_AsyncCallback_def)
  have settled: "(case ApplyRunner_AsyncCallback c info s hs of
           (settled, hs') \<Rightarrow>
             did_finish settled = Some True
             \<and> snd (ApplyRunner_Phase3 c current settled heap) = settled
             \<and> fst (ApplyRunner_Phase3 c current settled heap) =
                 (case info of
                    Resolved v \<Rightarrow>
                      (case Transferable_TransferOut c v Options_default hs of
                         Inr (t, hs'') \<Rightarrow> Transferable_TransferIn c current t heap
                       | Inl e \<Rightarrow> Inl (js_runtime_error (Some (RunCatchExternal_copy c e))))
                  | Rejected err \<Rightarrow>
                      Inl (js_runtime_error (Some
                        (case ExternalCopy_CopyIfPrimitiveOrError c err of
                           Some e \<Rightarrow> e
                         | None \<Rightarrow> ExternalCopyError
                             ''An object was thrown from supplied code within isolated-vm, but that object was not an instance of `Error`.'')))))"
  proof (cases info)
    case (Resolved v)
    then show ?thesis
      using flag no_error
      by (cases "Transferable_TransferOut c v Options_default hs")
         (auto simp add: ApplyRunner_AsyncCallback_def ApplyRunner_Phase3_def
            RemoteHandle_Deref_def)
  next
    case (Rejected err)
    then show ?thesis
      using flag no_error
      by (cases "ExternalCopy_CopyIfPrimitiveOrError c err")
         (auto simp add: ApplyRunner_AsyncCallback_def ApplyRunner_Phase3_def)
  qed
  from deadline late settled show ?thesis by blast
qed

theorem completion_flag_first_writer_wins_witness:
  "ApplyRunner_Phase3 example_collaborators 2
      \<lparr>argv = [], apply_context = Some 5, apply_reference = Some (JFunction 3),
       recv = Some (ExternalCopyTransferable (ExternalCopy JUndefined)), ret = None,
       timeout = 0, did_finish = Some False, return_transfer_options = Options_default,
       async_error = None, async_wait = Some 0\<rparr> [] =
     (Inl (js_generic_error ''Script execution timed out.''),
      \<lparr>argv = [], apply_context = Some 5, apply_reference = Some (JFunction 3),
       recv = Some (ExternalCopyTransferable (ExternalCopy JUndefined)), ret = None,
       timeout = 0, did_finish = Some True, return_transfer_options = Options_default,
       async_error = None, async_wait = Some 0\<rparr>)
   \<and> ApplyRunner_AsyncCallback example_collaborators (Resolved (JNumber 42))
      \<lparr>argv = [], apply_context = Some 5, apply_reference = Some (JFunction 3),
       recv = Some (ExternalCopyTransferable (ExternalCopy JUndefined)), ret = None,
       timeout = 0, did_finish = Some True, return_transfer_options = Options_default,
       async_error = None, async_wait = Some 0\<rparr> [] =
     (\<lparr>argv = [], apply_context = Some 5, apply_reference = Some (JFunction 3),
       recv = Some (ExternalCopyTransferable (ExternalCopy JUndefined)), ret = None,
       timeout = 0, did_finish = Some True, return_transfer_options = Options_default,
       async_error = None, async_wait = Some 0\<rparr>, [])
   \<and> fst (ApplyRunner_Phase3 example_collaborators 2
        (fst (ApplyRunner_AsyncCallback example_collaborators (Resolved (JNumber 42))
          \<lparr>argv = [], apply_context = Some 5, apply_reference = Some (JFunction 3),
           recv = Some (ExternalCopyTransferable (ExternalCopy JUndefined)), ret = None,
           timeout = 0, did_finish = Some False, return_transfer_options = Options_default,
           async_error = None, async_wait = Some 0\<rparr> [])) []) =
     Inr (JNumber 42, [])"
  using completion_flag_first_writer_wins
      [where c = example_collaborators and that = "ReferenceData 1 5 (JFunction 3)"
         and recv_handle = "Some JUndefined" and maybe_arguments = None
         and maybe_options = None and hs_caller = "[]" and hs_made = "[]"
         and runner = "\<lparr>argv = [], apply_context = Some 5,
             apply_reference = Some (JFunction 3),
             recv = Some (ExternalCopyTransferable (ExternalCopy JUndefined)), ret = None,
             timeout = 0, did_finish = None, return_transfer_options = Options_default,
             async_error = None, async_wait = None\<rparr>"
         and target = 1 and target_heap = "[]" and target_heap' = "[]" and hs_waiting = "[]"
         and s = "\<lparr>argv = [], apply_context = Some 5,
             apply_reference = Some (JFunction 3),
             recv = Some (ExternalCopyTransferable (ExternalCopy JUndefined)), ret = None,
             timeout = 0, did_finish = Some False, return_transfer_options = Options_default,
             async_error = None, async_wait = Some 0\<rparr>"
         and current = 2 and heap = "[]" and info = "Resolved (JNumber 42)" and hs = "[]"]
  by (simp add: ApplyRunner_ctor_def ReferenceData_def CheckDisposed_def read_run_options_def
      ApplyRunner_Phase2Async_def RemoteHandle_Deref_def Unmaybe_def
      Transferable_TransferOut_def Transferable_TransferIn_def example_collaborators_def
      ApplyRunner_AsyncCallback_def split: prod.splits)

subsection \<open>The handle returned by derefInto\<close>

text \<open>
  Claim C3, as amended: the handle returned by \<^verbatim>\<open>derefInto()\<close> can be used for one
  transfer only. Its first transfer-out succeeds and yields a transferable bound to
  the Reference's isolate and value, whose transfer-in succeeds in the owning isolate
  and fails with a type error elsewhere; any second transfer-out of the same handle
  fails with the generic error
  \<^verbatim>\<open>The return value of `derefInto()` should only be used once\<close>. The failure is
  raised by the transfer-out, in the isolate of the caller, and no transfer-in takes
  place.
\<close>

theorem DerefInto_capsule_single_use:
  assumes "reference r = Some v"
  shows "(case DerefInto maybe_options r hs of
            Inl e \<Rightarrow> False
          | Inr (d, r', hs1) \<Rightarrow>
              d = JDereference (length hs)
              \<and> hs1 ! length hs = DereferenceHandle (isolate r) (Some v)
              \<and> (case DereferenceHandle_TransferOut (hs1 ! length hs) of
                    Inl e \<Rightarrow> False
                  | Inr (t, used) \<Rightarrow>
                      t = DereferenceHandleTransferable (isolate r) (Some v)
                      \<and> Transferable_TransferIn c destination t heap =
                          (if isolate r = Some destination then Inr (v, heap)
                           else Inl (js_type_error
                             ''Cannot dereference this into target isolate''))
                      \<and> DereferenceHandle_TransferOut used =
                          Inl (js_generic_error
                            ''The return value of `derefInto()` should only be used once'')
                      \<and> Transferable_TransferOut c d options hs1 =
                          Inr (t, hs1[length hs := used])
                      \<and> Transferable_TransferOut c' d options' (hs1[length hs := used]) =
                          Inl (js_generic_error
                            ''The return value of `derefInto()` should only be used once'')))"
  using assms
  by (simp add: DerefInto_def CheckDisposed_def Release_def Let_def Transferable_TransferOut_def
      DereferenceHandle_TransferOut_def Transferable_TransferIn_def
      DereferenceHandleTransferable_TransferIn_def RemoteHandle_Deref_def)

theorem DerefInto_capsule_single_use_witness:
  "(case DerefInto None (ReferenceData 1 5 (JObject 7)) [] of
      Inl e \<Rightarrow> False
    | Inr (d, r', hs1) \<Rightarrow>
        d = JDereference 0
        \<and> (case DereferenceHandle_TransferOut (hs1 ! 0) of
              Inl e \<Rightarrow> False
            | Inr (t, used) \<Rightarrow>
                t = DereferenceHandleTransferable (Some 1) (Some (JObject 7))
                \<and> Transferable_TransferIn example_collaborators 1 t [] = Inr (JObject 7, [])
                \<and> DereferenceHandle_TransferOut used =
                    Inl (js_generic_error
                      ''The return value of `derefInto()` should only be used once'')
                \<and> Transferable_TransferOut example_collaborators d Options_default
                      (hs1[0 := used]) =
                    Inl (js_generic_error
                      ''The return value of `derefInto()` should only be used once'')))"
  using DerefInto_capsule_single_use
      [where r = "ReferenceData 1 5 (JObject 7)" and v = "JObject 7" and maybe_options = None
         and hs = "[]" and c = example_collaborators and options = Options_default
         and destination = 1 and heap = "[]" and c' = example_collaborators
         and options' = Options_default]
  by (simp add: ReferenceData_def DerefInto_def CheckDisposed_def release_option_def
      Transferable_TransferOut_def DereferenceHandle_TransferOut_def
      Transferable_TransferIn_def DereferenceHandleTransferable_TransferIn_def
      RemoteHandle_Deref_def)

text \<open>
  Claim C3 as stated places the failure of a second use in the second transfer-in.
  Here a handle is made by \<^verbatim>\<open>derefInto()\<close> and transferred out once. The
  transfer-in of the transferable succeeds in the owning isolate, however often it is
  run. The second transfer-out of the handle fails with the generic error; it yields
  no transferable whose transfer-in could fail.
\<close>

theorem second_use_fails_before_transfer_in:
  "DerefInto None (ReferenceData 1 5 (JObject 7)) [] =
     Inr (JDereference 0, ReferenceData 1 5 (JObject 7),
          [DereferenceHandle (Some 1) (Some (JObject 7))])
   \<and> Transferable_TransferOut example_collaborators (JDereference 0) Options_default
        [DereferenceHandle (Some 1) (Some (JObject 7))] =
       Inr (DereferenceHandleTransferable (Some 1) (Some (JObject 7)),
            [DereferenceHandle None None])
   \<and> Transferable_TransferOut example_collaborators (JDereference 0) Options_default
        [DereferenceHandle None None] =
       Inl (js_generic_error ''The return value of `derefInto()` should only be used once'')
   \<and> Transferable_TransferIn example_collaborators 1
        (DereferenceHandleTransferable (Some 1) (Some (JObject 7))) [] =
       Inr (JObject 7, [])
   \<and> \<not> (case Transferable_TransferOut example_collaborators (JDereference 0) Options_default
               [DereferenceHandle None None] of
            Inl e \<Rightarrow> False
          | Inr (t, hs) \<Rightarrow>
              Transferable_TransferIn example_collaborators 1 t [] =
                Inl (js_generic_error
                  ''The return value of `derefInto()` should only be used once''))"
  by (simp add: DerefInto_def CheckDisposed_def ReferenceData_def release_option_def
      Transferable_TransferOut_def DereferenceHandle_TransferOut_def
      Transferable_TransferIn_def DereferenceHandleTransferable_TransferIn_def
      RemoteHandle_Deref_def)

subsection \<open>deref and derefInto\<close>

text \<open>
  Claim C4: on a Reference that is not disposed, \<^verbatim>\<open>deref()\<close> called while the
  caller's current isolate is the owning isolate returns the live value itself; called
  from any other isolate it fails with a type error and returns no value.
\<close>

theorem Deref_owner_only:
  assumes "reference r = Some v" and "isolate r = Some owner"
  shows "map_sum id fst (Deref current maybe_options r) =
           (if current = owner then Inr v
            else Inl (js_type_error ''Cannot dereference this from current isolate''))"
  using assms
  by (simp add: Deref_def CheckDisposed_def RemoteHandle_Deref_def Release_def Let_def)

theorem Deref_owner_only_witness:
  "map_sum id fst (Deref 1 None (ReferenceData 1 5 (JObject 7))) = Inr (JObject 7)
   \<and> map_sum id fst (Deref 2 None (ReferenceData 1 5 (JObject 7))) =
       Inl (js_type_error ''Cannot dereference this from current isolate'')"
  using Deref_owner_only [of "ReferenceData 1 5 (JObject 7)" "JObject 7" 1 1 None]
        Deref_owner_only [of "ReferenceData 1 5 (JObject 7)" "JObject 7" 1 2 None]
  by (simp add: ReferenceData_def)

text \<open>
  Claim C5: the handle made by \<^verbatim>\<open>derefInto()\<close> on a Reference, once transferred
  out, is transferred in successfully exactly when the destination is the isolate that
  owns the Reference, and yields the live value there; in any other isolate the
  transfer-in fails with a type error.
\<close>

theorem DerefInto_capsule_owner_only:
  assumes "reference r = Some v" and "isolate r = Some owner"
  shows "(case DerefInto maybe_options r hs of
            Inl e \<Rightarrow> False
          | Inr (d, r', hs1) \<Rightarrow>
              (case DereferenceHandle_TransferOut (hs1 ! length hs) of
                 Inl e \<Rightarrow> False
               | Inr (t, used) \<Rightarrow>
                   t = DereferenceHandleTransferable (Some owner) (Some v)
                   \<and> Transferable_TransferOut c d options hs1 = Inr (t, hs1[length hs := used])
                   \<and> DereferenceHandleTransferable_TransferIn destination (Some owner) (Some v) =
                       (if destination = owner then Inr v
                        else Inl (js_type_error ''Cannot dereference this into target isolate''))
                   \<and> Transferable_TransferIn c destination t heap =
                       (if destination = owner then Inr (v, heap)
                        else Inl (js_type_error
                          ''Cannot dereference this into target isolate''))))"
  using assms
  by (simp add: DerefInto_def CheckDisposed_def Release_def Let_def Transferable_TransferOut_def
      DereferenceHandle_TransferOut_def Transferable_TransferIn_def
      DereferenceHandleTransferable_TransferIn_def RemoteHandle_Deref_def)

theorem DerefInto_capsule_owner_only_witness:
  "(case DerefInto None (ReferenceData 1 5 (JObject 7)) [] of
      Inl e \<Rightarrow> False
    | Inr (d, r', hs1) \<Rightarrow>
        (case Transferable_TransferOut example_collaborators d Options_default hs1 of
           Inl e \<Rightarrow> False
         | Inr (t, hs2) \<Rightarrow>
             Transferable_TransferIn example_collaborators 1 t [] = Inr (JObject 7, [])))
   \<and> (case DerefInto None (ReferenceData 1 5 (JObject 7)) [] of
      Inl e \<Rightarrow> False
    | Inr (d, r', hs1) \<Rightarrow>
        (case Transferable_TransferOut example_collaborators d Options_default hs1 of
           Inl e \<Rightarrow> False
         | Inr (t, hs2) \<Rightarrow>
             Transferable_TransferIn example_collaborators 2 t [] =
               Inl (js_type_error ''Cannot dereference this into target isolate'')))"
  using DerefInto_capsule_owner_only
      [where r = "ReferenceData 1 5 (JObject 7)" and v = "JObject 7" and owner = 1
         and maybe_options = None and hs = "[]" and c = example_collaborators
         and options = Options_default and destination = 1 and heap = "[]"]
    DerefInto_capsule_owner_only
      [where r = "ReferenceData 1 5 (JObject 7)" and v = "JObject 7" and owner = 1
         and maybe_options = None and hs = "[]" and c = example_collaborators
         and options = Options_default and destination = 2 and heap = "[]"]
  by (simp add: ReferenceData_def DerefInto_def CheckDisposed_def release_option_def
      Transferable_TransferOut_def DereferenceHandle_TransferOut_def
      Transferable_TransferIn_def DereferenceHandleTransferable_TransferIn_def
      RemoteHandle_Deref_def)

subsection \<open>set\<close>

text \<open>
  Claim C6: for a \<^verbatim>\<open>set(key, value)\<close> on a Reference that is not disposed, phase 2
  first deletes the property at the key on the remote object, then transfers the value
  in, then sets the property, each step on the heap the step before left; the result
  of the operation is the boolean the underlying set returned.
\<close>

theorem set_deletes_then_sets:
  assumes "SetRunner_ctor c that key_handle val_handle maybe_options hs = Inr (runner, hs')"
    and "context_handle that = Some cx"
    and "reference that = Some object"
    and "ExternalCopy_CopyIfPrimitive c key_handle = Some k"
    and "Object_Delete c object (ExternalCopy_CopyInto c k) heap = (Some d, after_delete)"
    and "Transferable_TransferIn c current (set_val runner) after_delete = Inr (val_inner, after_transfer)"
    and "Object_Set c object (ExternalCopy_CopyInto c k) val_inner after_transfer = (Some b, after_set)"
  shows "SetRunner_Phase2 c current runner heap = Inr (runner\<lparr>did_set := b\<rparr>, after_set)
     \<and> SetRunner_Phase3 (runner\<lparr>did_set := b\<rparr>) = JBoolean b"
proof -
  from assms(1) have fields:
    "set_key runner = ExternalCopy_CopyIfPrimitive c key_handle"
    "set_context runner = context_handle that"
    "set_reference runner = reference that"
    by (auto simp add: SetRunner_ctor_def Let_def
        split: sum.splits prod.splits if_splits)
  show ?thesis
    using assms(2-7)
    by (simp add: SetRunner_Phase2_def SetRunner_Phase3_def fields RemoteHandle_Deref_def
        Unmaybe_def)
qed

theorem set_deletes_then_sets_witness:
  "SetRunner_Phase2 example_collaborators 1
      \<lparr>set_key = Some (ExternalCopy (JString ''x'')),
       set_val = ExternalCopyTransferable (ExternalCopy (JNumber 7)),
       set_context = Some 5, set_reference = Some (JObject 7), did_set = False\<rparr>
      [(JObject 7, JString ''x'', JNumber 1)] =
     Inr (\<lparr>set_key = Some (ExternalCopy (JString ''x'')),
           set_val = ExternalCopyTransferable (ExternalCopy (JNumber 7)),
           set_context = Some 5, set_reference = Some (JObject 7), did_set = True\<rparr>,
          [(JObject 7, JString ''x'', JNumber 7)])
   \<and> SetRunner_Phase3
      \<lparr>set_key = Some (ExternalCopy (JString ''x'')),
       set_val = ExternalCopyTransferable (ExternalCopy (JNumber 7)),
       set_context = Some 5, set_reference = Some (JObject 7), did_set = True\<rparr> =
     JBoolean True"
  using set_deletes_then_sets
      [where c = example_collaborators and that = "ReferenceData 1 5 (JObject 7)"
         and key_handle = "JString ''x''" and val_handle = "JNumber 7"
         and maybe_options = None and hs = "[]" and hs' = "[]"
         and runner = "\<lparr>set_key = Some (ExternalCopy (JString ''x'')),
             set_val = ExternalCopyTransferable (ExternalCopy (JNumber 7)),
             set_context = Some 5, set_reference = Some (JObject 7), did_set = False\<rparr>"
         and cx = 5 and object = "JObject 7" and k = "ExternalCopy (JString ''x'')"
         and heap = "[(JObject 7, JString ''x'', JNumber 1)]" and d = True and after_delete = "[]"
         and current = 1 and val_inner = "JNumber 7" and after_transfer = "[]" and b = True
         and after_set = "[(JObject 7, JString ''x'', JNumber 7)]"]
  by (simp add: SetRunner_ctor_def ReferenceData_def CheckDisposed_def
      Transferable_Options_maybe_def Transferable_TransferOut_def Transferable_TransferIn_def
      example_collaborators_def)

subsection \<open>The arguments of apply\<close>

lemma upt_first: "[ii..<ii + Suc n] = ii # [Suc ii..<Suc ii + n]"
  by (simp add: upt_conv_Cons)

lemma externalize_accepts_dense_only:
  "externalize c options arguments keys ii hs = Inr (ts, hs') \<Longrightarrow>
     keys = map PIndex [ii..<ii + length keys] \<and> length ts = length keys"
proof (induction keys arbitrary: ii hs ts)
  case Nil
  then show ?case by simp
next
  case (Cons k keys)
  from Cons.prems obtain t hs1 ts1 where
    k: "k = PIndex ii" and
    rest: "externalize c options arguments keys (Suc ii) hs1 = Inr (ts1, hs')" and
    ts: "ts = t # ts1"
    by (cases k) (auto simp add: Unmaybe_def split: if_splits sum.splits prod.splits)
  from Cons.IH [OF rest] have
    keyseq: "keys = map PIndex [Suc ii..<Suc ii + length keys]" and
    len: "length ts1 = length keys"
    by simp_all
  have split: "[ii..<ii + length (k # keys)] = ii # [Suc ii..<Suc ii + length keys]"
    by (simp only: length_Cons upt_first)
  have "map PIndex [ii..<ii + length (k # keys)] =
      PIndex ii # map PIndex [Suc ii..<Suc ii + length keys]"
    by (simp only: split list.map)
  also have "\<dots> = PIndex ii # keys"
    by (simp only: keyseq [symmetric])
  finally have "k # keys = map PIndex [ii..<ii + length (k # keys)]"
    using k by simp
  moreover have "length ts = length (k # keys)"
    using ts len by simp
  ultimately show ?case by blast
qed

lemma externalize_dense:
  "externalize c options arguments (map PIndex [ii..<ii + n]) ii hs =
     TransferOut_in_order c options (map (array_Get arguments) [ii..<ii + n]) hs"
proof (induction n arbitrary: ii hs)
  case 0
  then show ?case by simp
next
  case (Suc n)
  have split: "[ii..<ii + Suc n] = ii # [Suc ii..<Suc ii + n]"
    by (rule upt_first)
  show ?case
    apply (simp only: split list.map externalize.simps TransferOut_in_order.simps
        ToArrayIndex.simps Suc.IH)
    apply (simp add: Unmaybe_def split: sum.splits prod.splits)
    done
qed

lemma externalize_gap:
  "k \<noteq> ii + m \<Longrightarrow>
   externalize c options arguments (map PIndex [ii..<ii + m] @ PIndex k # rest) ii hs =
     (case TransferOut_in_order c options (map (array_Get arguments) [ii..<ii + m]) hs of
        Inl e \<Rightarrow> Inl e
      | Inr done \<Rightarrow> Inl (js_type_error ''Invalid `arguments` array''))"
proof (induction m arbitrary: ii hs)
  case 0
  then show ?case by (simp add: Unmaybe_def)
next
  case (Suc m)
  have split: "[ii..<ii + Suc m] = ii # [Suc ii..<Suc ii + m]"
    by (rule upt_first)
  from Suc.prems have "k \<noteq> Suc ii + m" by simp
  from Suc.IH [OF this] have step:
    "externalize c options arguments (map PIndex [Suc ii..<Suc ii + m] @ PIndex k # rest)
       (Suc ii) hs1 =
     (case TransferOut_in_order c options (map (array_Get arguments) [Suc ii..<Suc ii + m]) hs1 of
        Inl e \<Rightarrow> Inl e
      | Inr done \<Rightarrow> Inl (js_type_error ''Invalid `arguments` array''))" for hs1 .
  show ?case
    apply (simp only: split list.map append_Cons externalize.simps TransferOut_in_order.simps
        ToArrayIndex.simps step)
    apply (simp add: Unmaybe_def split: sum.splits prod.splits)
    done
qed

text \<open>
  Claim C7, as amended: phase 1 of apply accepts an arguments collection only when its
  own property names are the array indices \<open>0..n-1\<close> in order, and then it has
  transferred out the \<open>n\<close> arguments in index order under the transfer options of the
  arguments. The names are walked in order and each argument is transferred out as
  soon as its name is accepted, so phase 1 fails at the first position where something
  goes wrong: when the names before position \<open>m\<close> are \<open>0..m-1\<close> and the name at
  \<open>m\<close> is another array index (a gap), it fails with the error of the first of these
  \<open>m\<close> transfers that fails, and with the type error
  \<^verbatim>\<open>Invalid `arguments` array\<close> when all of them succeed. The outcome of the
  loop is the outcome of phase 1 once the Reference is found live and the run options
  are read. What phase 1 does on a name that is not an array index is left open here.
\<close>

theorem arguments_externalized_in_index_order:
  "(externalize c options arguments (GetOwnPropertyNames arguments) 0 hs = Inr (ts, hs') \<longrightarrow>
      GetOwnPropertyNames arguments = map PIndex [0..<length arguments]
      \<and> length ts = length arguments)
   \<and> (GetOwnPropertyNames arguments = map PIndex [0..<n] \<longrightarrow>
        externalize c options arguments (GetOwnPropertyNames arguments) 0 hs =
          TransferOut_in_order c options (map (array_Get arguments) [0..<n]) hs)
   \<and> (GetOwnPropertyNames arguments = map PIndex [0..<m] @ PIndex k # rest \<and> k \<noteq> m \<longrightarrow>
        externalize c options arguments (GetOwnPropertyNames arguments) 0 hs =
          (case TransferOut_in_order c options (map (array_Get arguments) [0..<m]) hs of
             Inl e \<Rightarrow> Inl e
           | Inr done \<Rightarrow> Inl (js_type_error ''Invalid `arguments` array'')))
   \<and> (reference that = Some v
        \<and> read_run_options c maybe_options = Inr (t, options, return_options) \<longrightarrow>
        ApplyRunner_ctor c that None (Some arguments) maybe_options hs =
          (case externalize c options arguments (GetOwnPropertyNames arguments) 0 hs of
             Inl e \<Rightarrow> Inl e
           | Inr (made, hs2) \<Rightarrow>
               Inr (\<lparr>argv = made, apply_context = context_handle that,
                     apply_reference = Some v, recv = None, ret = None, timeout = t,
                     did_finish = None, return_transfer_options = return_options,
                     async_error = None, async_wait = None\<rparr>, hs2)))"
proof (intro conjI impI)
  assume "externalize c options arguments (GetOwnPropertyNames arguments) 0 hs = Inr (ts, hs')"
  from externalize_accepts_dense_only [OF this]
  show "GetOwnPropertyNames arguments = map PIndex [0..<length arguments]"
    and "length ts = length arguments"
    by (simp_all add: GetOwnPropertyNames_def)
next
  assume "GetOwnPropertyNames arguments = map PIndex [0..<n]"
  then show "externalize c options arguments (GetOwnPropertyNames arguments) 0 hs =
      TransferOut_in_order c options (map (array_Get arguments) [0..<n]) hs"
    using externalize_dense [of c options arguments 0 n hs] by simp
next
  assume "GetOwnPropertyNames arguments = map PIndex [0..<m] @ PIndex k # rest \<and> k \<noteq> m"
  then show "externalize c options arguments (GetOwnPropertyNames arguments) 0 hs =
      (case TransferOut_in_order c options (map (array_Get arguments) [0..<m]) hs of
         Inl e \<Rightarrow> Inl e
       | Inr done \<Rightarrow> Inl (js_type_error ''Invalid `arguments` array''))"
    using externalize_gap [of k 0 m c options arguments rest hs] by simp
next
  assume "reference that = Some v
    \<and> read_run_options c maybe_options = Inr (t, options, return_options)"
  then show "ApplyRunner_ctor c that None (Some arguments) maybe_options hs =
      (case externalize c options arguments (GetOwnPropertyNames arguments) 0 hs of
         Inl e \<Rightarrow> Inl e
       | Inr (made, hs2) \<Rightarrow>
           Inr (\<lparr>argv = made, apply_context = context_handle that,
                 apply_reference = Some v, recv = None, ret = None, timeout = t,
                 did_finish = None, return_transfer_options = return_options,
                 async_error = None, async_wait = None\<rparr>, hs2))"
    by (simp add: ApplyRunner_ctor_def CheckDisposed_def split: sum.splits prod.splits)
qed

theorem arguments_externalized_in_index_order_witness:
  "externalize example_collaborators Options_default
      [(PIndex 0, JNumber 1), (PIndex 1, JString ''a'')]
      (GetOwnPropertyNames [(PIndex 0, JNumber 1), (PIndex 1, JString ''a'')]) 0 [] =
     Inr ([ExternalCopyTransferable (ExternalCopy (JNumber 1)),
           ExternalCopyTransferable (ExternalCopy (JString ''a''))], [])
   \<and> externalize example_collaborators Options_default
      [(PIndex 0, JNumber 1), (PIndex 2, JNumber 3)]
      (GetOwnPropertyNames [(PIndex 0, JNumber 1), (PIndex 2, JNumber 3)]) 0 [] =
     Inl (js_type_error ''Invalid `arguments` array'')
   \<and> ApplyRunner_ctor example_collaborators (ReferenceData 1 5 (JFunction 3)) None
      (Some [(PIndex 0, JNumber 1), (PIndex 2, JNumber 3)]) None [] =
     Inl (js_type_error ''Invalid `arguments` array'')"
  using arguments_externalized_in_index_order
      [where c = example_collaborators and options = Options_default and hs = "[]"
         and arguments = "[(PIndex 0, JNumber 1), (PIndex 1, JString ''a'')]" and n = 2
         and ts = "[ExternalCopyTransferable (ExternalCopy (JNumber 1)),
                    ExternalCopyTransferable (ExternalCopy (JString ''a''))]"
         and hs' = "[]" and m = 0 and k = 1 and rest = "[]"
         and that = "ReferenceData 1 5 (JFunction 3)" and v = "JFunction 3"
         and maybe_options = None and t = 0 and return_options = Options_default]
    arguments_externalized_in_index_order
      [where c = example_collaborators and options = Options_default and hs = "[]"
         and arguments = "[(PIndex 0, JNumber 1), (PIndex 2, JNumber 3)]" and n = 0
         and m = 1 and k = 2 and rest = "[]"
         and that = "ReferenceData 1 5 (JFunction 3)" and v = "JFunction 3"
         and maybe_options = None and t = 0 and return_options = Options_default]
  by (simp add: GetOwnPropertyNames_def array_Get_def Transferable_TransferOut_def
      example_collaborators_def upt_conv_Cons ReferenceData_def read_run_options_def)

text \<open>
  Claim C7 as stated has every gap make phase 1 fail with the type error
  \<^verbatim>\<open>Invalid `arguments` array\<close>. Here the names of the collection are 0 and 2,
  and the argument at 0 is the result of a \<^verbatim>\<open>derefInto()\<close> that was used before:
  its transfer-out fails first, and phase 1 fails with that generic error.
\<close>

theorem gap_after_failed_transfer:
  "ApplyRunner_ctor example_collaborators (ReferenceData 1 5 (JFunction 3)) None
      (Some [(PIndex 0, JDereference 0), (PIndex 2, JNumber 1)]) None
      [DereferenceHandle None None] =
     Inl (js_generic_error ''The return value of `derefInto()` should only be used once'')
   \<and> ApplyRunner_ctor example_collaborators (ReferenceData 1 5 (JFunction 3)) None
      (Some [(PIndex 0, JDereference 0), (PIndex 2, JNumber 1)]) None
      [DereferenceHandle None None] \<noteq>
     Inl (js_type_error ''Invalid `arguments` array'')"
  by (simp add: ApplyRunner_ctor_def CheckDisposed_def ReferenceData_def read_run_options_def
      GetOwnPropertyNames_def array_Get_def Unmaybe_def Transferable_TransferOut_def
      DereferenceHandle_TransferOut_def)

text \<open>
  A name that is not an array index: \<^verbatim>\<open>ToArrayIndex\<close> returns an empty handle,
  \<^verbatim>\<open>Unmaybe\<close> throws \<^verbatim>\<open>js_runtime_error\<close>, and the comparison with the position
  is not reached.
\<close>

lemma name_that_is_not_an_index:
  "ApplyRunner_ctor example_collaborators (ReferenceData 1 5 (JFunction 3)) None
      (Some [(PIndex 0, JNumber 1), (PName ''foo'', JNumber 2)]) None [] =
     Inl (js_runtime_error None)"
  by (simp add: ApplyRunner_ctor_def CheckDisposed_def ReferenceData_def read_run_options_def
      GetOwnPropertyNames_def array_Get_def Unmaybe_def Transferable_TransferOut_def
      example_collaborators_def)

subsection \<open>Disposal of a shareable persistent\<close>

text \<open>
  Claim C8: when a shareable persistent is destroyed, its slot is disposed of exactly
  once. If the isolate is alive, a task is scheduled on its queue and nothing is done
  at once: the task calls the disposer, when there is one, with the pointer to the
  isolate, then resets the persistent and deletes it. If scheduling fails because the
  isolate is gone, the disposer, when there is one, is called at once with a null
  pointer, and the persistent is deleted at once.
\<close>

theorem ShareablePersistent_disposal:
  "ShareablePersistent_destructor D handle shared =
     (if alive shared
      then ([], shared\<lparr>handle_tasks := handle_tasks shared @
                 [(if D then [Disposer_call handle (Some (isolate_identity shared))] else [])
                  @ [Persistent_Reset handle, Persistent_delete handle]]\<rparr>)
      else ((if D then [Disposer_call handle None] else []) @ [Persistent_delete handle],
            shared))
   \<and> (case ShareablePersistent_destructor D handle shared of
         (now, shared') \<Rightarrow>
           count_list (now @ concat (drop (length (handle_tasks shared)) (handle_tasks shared')))
             (Persistent_delete handle) = 1)"
  by (simp add: ShareablePersistent_destructor_def ScheduleHandleTask_def)

theorem ShareablePersistent_disposal_witness:
  "ShareablePersistent_destructor True 3 \<lparr>isolate_identity = 1, alive = True, handle_tasks = []\<rparr> =
     ([], \<lparr>isolate_identity = 1, alive = True,
           handle_tasks = [[Disposer_call 3 (Some 1), Persistent_Reset 3, Persistent_delete 3]]\<rparr>)
   \<and> ShareablePersistent_destructor True 3
       \<lparr>isolate_identity = 1, alive = False, handle_tasks = []\<rparr> =
     ([Disposer_call 3 None, Persistent_delete 3],
      \<lparr>isolate_identity = 1, alive = False, handle_tasks = []\<rparr>)"
  using ShareablePersistent_disposal
      [of True 3 "\<lparr>isolate_identity = 1, alive = True, handle_tasks = []\<rparr>"]
    ShareablePersistent_disposal
      [of True 3 "\<lparr>isolate_identity = 1, alive = False, handle_tasks = []\<rparr>"]
  by simp

subsection \<open>The release option\<close>

text \<open>
  Claim C9: with the option \<^verbatim>\<open>release\<close> set, \<^verbatim>\<open>deref\<close> and \<^verbatim>\<open>derefInto\<close>
  release the Reference right after the result is made: the call returns the live
  value, respectively the new handle, still unused and holding the isolate and the
  value, together with the released Reference, on which \<^verbatim>\<open>CheckDisposed\<close> fails.
  With no options object, or with the option not set, both leave the Reference as it
  was.
\<close>

theorem release_option_effect:
  assumes "reference r = Some v" and "isolate r = Some current"
  shows "Deref current None r = Inr (v, r)
     \<and> Deref current (Some options) r =
         Inr (v, if IsOptionSet options ''release''
                 then r\<lparr>isolate := None, reference := None, context_handle := None\<rparr>
                 else r)
     \<and> DerefInto None r hs =
         Inr (JDereference (length hs), r, hs @ [DereferenceHandle (isolate r) (Some v)])
     \<and> DerefInto (Some options) r hs =
         Inr (JDereference (length hs),
              if IsOptionSet options ''release''
              then r\<lparr>isolate := None, reference := None, context_handle := None\<rparr>
              else r,
              hs @ [DereferenceHandle (isolate r) (Some v)])
     \<and> CheckDisposed (r\<lparr>isolate := None, reference := None, context_handle := None\<rparr>) =
         Inl (js_generic_error ''Reference has been released'')"
  using assms
  by (simp add: Deref_def DerefInto_def CheckDisposed_def RemoteHandle_Deref_def Release_def
      release_option_def Let_def)

theorem release_option_effect_witness:
  "Deref 1 None (ReferenceData 1 5 (JObject 7)) = Inr (JObject 7, ReferenceData 1 5 (JObject 7))
   \<and> Deref 1 (Some [''release'' \<mapsto> JBoolean True]) (ReferenceData 1 5 (JObject 7)) =
       Inr (JObject 7,
            \<lparr>isolate = None, reference = None, context_handle = None, type_of = TypeOf_Object\<rparr>)
   \<and> DerefInto (Some [''release'' \<mapsto> JBoolean True]) (ReferenceData 1 5 (JObject 7)) [] =
       Inr (JDereference 0,
            \<lparr>isolate = None, reference = None, context_handle = None, type_of = TypeOf_Object\<rparr>,
            [DereferenceHandle (Some 1) (Some (JObject 7))])
   \<and> DerefInto (Some [''release'' \<mapsto> JBoolean False]) (ReferenceData 1 5 (JObject 7)) [] =
       Inr (JDereference 0, ReferenceData 1 5 (JObject 7),
            [DereferenceHandle (Some 1) (Some (JObject 7))])"
  using release_option_effect
      [where r = "ReferenceData 1 5 (JObject 7)" and v = "JObject 7" and current = 1
         and options = "[''release'' \<mapsto> JBoolean True]" and hs = "[]"]
    release_option_effect
      [where r = "ReferenceData 1 5 (JObject 7)" and v = "JObject 7" and current = 1
         and options = "[''release'' \<mapsto> JBoolean False]" and hs = "[]"]
  by (simp add: ReferenceData_def IsOptionSet_def options_Get_def)

subsection \<open>The return options of applySyncPromise\<close>

text \<open>
  Claim C10: an \<^verbatim>\<open>applySyncPromise\<close> whose transfer options of the return value
  differ from the default ones fails with the type error
  \<^verbatim>\<open>`return` options are not available for `applySyncPromise`\<close>. The test is the
  first step of phase 2, in the target isolate: whatever the runner, the heap and the
  collaborators are, \<^verbatim>\<open>Phase2Async\<close> returns this error, so neither a transfer-in
  nor the call of the function takes place. Phase 1 does not make the test: given an
  options object whose \<^verbatim>\<open>return\<close> is an object that parses, the constructor
  succeeds and stores options with the fallback \<^verbatim>\<open>Type::Reference\<close>, which differ
  from the default ones, and phase 2 then fails.
\<close>

theorem return_options_refused_in_phase2:
  "(return_transfer_options runner \<noteq> Options_default \<longrightarrow>
      ApplyRunner_Phase2Async c current runner heap hs =
        Inl (js_type_error ''`return` options are not available for `applySyncPromise`''))
   \<and> (reference that = Some v \<and> IsObject object \<and> Options_parse c object = Inr t \<longrightarrow>
        (case ApplyRunner_ctor c that None None (Some [''return'' \<mapsto> object]) hs of
           Inl e \<Rightarrow> False
         | Inr (made, hs') \<Rightarrow>
             return_transfer_options made = \<lparr>requested = t, fallback = Type_Reference\<rparr>
             \<and> ApplyRunner_Phase2Async c current made heap hs' =
                 Inl (js_type_error
                   ''`return` options are not available for `applySyncPromise`'')))"
proof -
  have phase2: "ApplyRunner_Phase2Async c current x heap ys =
      Inl (js_type_error ''`return` options are not available for `applySyncPromise`'')"
    if "return_transfer_options x \<noteq> Options_default" for x ys
    using that by (simp add: ApplyRunner_Phase2Async_def)
  have timeout_absent: "read_timeout [''return'' \<mapsto> object] = Inr 0"
    by (simp add: read_timeout_def options_Get_def)
  have arguments_absent:
    "read_arguments_options c [''return'' \<mapsto> object] = Inr Options_default"
    by (simp add: read_arguments_options_def options_Get_def)
  have return_read: "read_return_options c [''return'' \<mapsto> object] =
      Inr \<lparr>requested = t, fallback = Type_Reference\<rparr>"
    if "IsObject object" and "Options_parse c object = Inr t"
    using that
    by (cases object) (simp_all add: read_return_options_def options_Get_def
        Transferable_Options_of_def)
  have differs: "\<lparr>requested = t, fallback = Type_Reference\<rparr> \<noteq> Options_default"
    by (simp add: Options_default_def)
  show ?thesis
    using phase2 differs
    by (auto simp add: ApplyRunner_ctor_def CheckDisposed_def read_run_options_def
        timeout_absent arguments_absent return_read)
qed

theorem return_options_refused_in_phase2_witness:
  "ApplyRunner_Phase2Async example_collaborators 1
      \<lparr>argv = [], apply_context = Some 5, apply_reference = Some (JFunction 3),
       recv = None, ret = None, timeout = 0, did_finish = None,
       return_transfer_options = \<lparr>requested = Type_Copy, fallback = Type_None\<rparr>,
       async_error = None, async_wait = None\<rparr> [] [] =
     Inl (js_type_error ''`return` options are not available for `applySyncPromise`'')
   \<and> (case ApplyRunner_ctor example_collaborators (ReferenceData 1 5 (JFunction 3)) None None
           (Some [''return'' \<mapsto> JObject 9]) [] of
      Inl e \<Rightarrow> False
    | Inr (made, hs') \<Rightarrow>
        return_transfer_options made = \<lparr>requested = Type_None, fallback = Type_Reference\<rparr>
        \<and> ApplyRunner_Phase2Async example_collaborators 1 made [] hs' =
            Inl (js_type_error ''`return` options are not available for `applySyncPromise`''))"
  using return_options_refused_in_phase2
    [where c = example_collaborators and that = "ReferenceData 1 5 (JFunction 3)"
       and v = "JFunction 3" and object = "JObject 9" and t = Type_None and hs = "[]"
       and current = 1 and heap = "[]"
       and runner = "\<lparr>argv = [], apply_context = Some 5, apply_reference = Some (JFunction 3),
         recv = None, ret = None, timeout = 0, did_finish = None,
         return_transfer_options = \<lparr>requested = Type_Copy, fallback = Type_None\<rparr>,
         async_error = None, async_wait = None\<rparr>"]
  by (simp add: ReferenceData_def example_collaborators_def Options_default_def)

end
